theory Spec2Isabelle
  imports Complex_Main
begin

section \<open>Data model (models.py)\<close>

text \<open>
  Each SQLAlchemy table is a list of rows in insertion order; a row is a record whose
  fields carry the column names, prefixed by the table's initials because several
  tables share column names (\<open>poll_id\<close>, \<open>user_id\<close>, \<open>voted_at\<close>).
  A \<open>datetime\<close> is the number of microseconds since a fixed midnight, so that the
  difference of two of them is a \<open>timedelta\<close> in microseconds.  Python's \<open>float\<close>
  results are modelled by the exact real they approximate.
  \<open>query(...).filter(...).first()\<close> is \<^const>\<open>find\<close> on the table.
\<close>

type_synonym datetime = int

record poll =
  p_id :: int
  p_question :: string
  p_team_id :: string
  p_channel_id :: string
  p_creator_id :: string
  p_vote_type :: string
  p_status :: string
  p_created_at :: datetime
  p_ended_at :: "datetime option"
  p_message_ts :: "string option"

record poll_option =
  o_id :: int
  o_poll_id :: int
  o_text :: string
  o_vote_count :: int
  o_order_index :: int

record voted_user =
  vu_poll_id :: int
  vu_user_id :: string
  vu_voted_at :: datetime

record user_vote =
  uv_poll_id :: int
  uv_user_id :: string
  uv_option_id :: int
  uv_voted_at :: datetime

record poll_analytics =
  pa_poll_id :: int
  pa_total_votes :: int
  pa_unique_voters :: int
  pa_participation_rate :: real
  pa_avg_response_time :: real
  pa_peak_voting_hour :: "int option"
  pa_created_at :: datetime
  pa_updated_at :: datetime

record user_role =
  ur_user_id :: string
  ur_team_id :: string
  ur_role :: string
  ur_is_active :: bool

record poll_share =
  ps_poll_id :: int
  ps_channel_id :: string
  ps_message_ts :: "string option"
  ps_shared_by :: string
  ps_is_active :: bool

record db =
  polls :: "poll list"
  poll_options :: "poll_option list"
  voted_users :: "voted_user list"
  user_votes :: "user_vote list"
  analytics :: "poll_analytics list"
  user_roles :: "user_role list"
  poll_shares :: "poll_share list"

definition get_poll :: "int \<Rightarrow> db \<Rightarrow> poll option" where
  "get_poll poll_id s = find (\<lambda>p. p_id p = poll_id) (polls s)"

text \<open>The relationships \<open>poll.options\<close>, \<open>poll.voted_users\<close> and \<open>poll.user_votes\<close>.\<close>

definition options_of :: "int \<Rightarrow> db \<Rightarrow> poll_option list" where
  "options_of poll_id s = filter (\<lambda>opt. o_poll_id opt = poll_id) (poll_options s)"

definition voted_users_of :: "int \<Rightarrow> db \<Rightarrow> voted_user list" where
  "voted_users_of poll_id s = filter (\<lambda>v. vu_poll_id v = poll_id) (voted_users s)"

definition user_votes_of :: "int \<Rightarrow> db \<Rightarrow> user_vote list" where
  "user_votes_of poll_id s = filter (\<lambda>v. uv_poll_id v = poll_id) (user_votes s)"

text \<open>\<open>sum(option.vote_count for option in poll.options)\<close>\<close>

definition sum_vote_count :: "int \<Rightarrow> db \<Rightarrow> int" where
  "sum_vote_count poll_id s = sum_list (map o_vote_count (options_of poll_id s))"

section \<open>Analytics (slack\_handlers.py, update\_poll\_analytics)\<close>

definition total_seconds :: "int \<Rightarrow> real" where
  "total_seconds delta = real_of_int delta / 1000000"

definition hour_of :: "datetime \<Rightarrow> int" where
  "hour_of t = (t div 3600000000) mod 24"

text \<open>\<open>hour_counts[hour] = hour_counts.get(hour, 0) + 1\<close> on a dict in insertion order.\<close>

fun count_hour :: "int \<Rightarrow> (int \<times> nat) list \<Rightarrow> (int \<times> nat) list" where
  "count_hour h [] = [(h, 1)]"
| "count_hour h ((k, c) # rest) =
     (if k = h then (k, c + 1) # rest else (k, c) # count_hour h rest)"

text \<open>\<open>max(hour_counts, key=hour_counts.get)\<close>: the first key of greatest count.\<close>

fun max_key_from :: "int \<times> nat \<Rightarrow> (int \<times> nat) list \<Rightarrow> int" where
  "max_key_from (k, c) [] = k"
| "max_key_from (k, c) ((k', c') # rest) =
     (if c < c' then max_key_from (k', c') rest else max_key_from (k, c) rest)"

definition peak_voting_hour :: "user_vote list \<Rightarrow> int option" where
  "peak_voting_hour votes =
     (case foldl (\<lambda>hc v. count_hour (hour_of (uv_voted_at v)) hc) [] votes of
        [] \<Rightarrow> None
      | kc # rest \<Rightarrow> Some (max_key_from kc rest))"

definition participation_rate :: "int \<Rightarrow> int \<Rightarrow> real" where
  "participation_rate unique_voters total_votes =
     min 100 (real_of_int unique_voters / real_of_int (max 1 total_votes) * 100)"

definition avg_response_time :: "poll \<Rightarrow> user_vote list \<Rightarrow> real" where
  "avg_response_time poll votes =
     (if votes \<noteq> []
      then sum_list (map (\<lambda>v. total_seconds (uv_voted_at v - p_created_at poll) / 60) votes)
             / real (length votes)
      else 0)"

fun store_analytics :: "poll_analytics \<Rightarrow> poll_analytics list \<Rightarrow> poll_analytics list" where
  "store_analytics new [] = [new]"
| "store_analytics new (a # rest) =
     (if pa_poll_id a = pa_poll_id new
      then a\<lparr>pa_total_votes := pa_total_votes new,
             pa_unique_voters := pa_unique_voters new,
             pa_participation_rate := pa_participation_rate new,
             pa_avg_response_time := pa_avg_response_time new,
             pa_peak_voting_hour := pa_peak_voting_hour new,
             pa_updated_at := pa_updated_at new\<rparr> # rest
      else a # store_analytics new rest)"

text \<open>
  The snapshot \<open>update_poll_analytics\<close> computes.  The hourly \<open>vote_activity\<close> table
  that the function refreshes afterwards is read by nothing below and is left out.
\<close>

definition compute_analytics :: "poll \<Rightarrow> datetime \<Rightarrow> db \<Rightarrow> poll_analytics" where
  "compute_analytics poll now s =
     (let total_votes = sum_vote_count (p_id poll) s;
          unique_voters = int (length (voted_users_of (p_id poll) s))
      in \<lparr>pa_poll_id = p_id poll,
          pa_total_votes = total_votes,
          pa_unique_voters = unique_voters,
          pa_participation_rate = participation_rate unique_voters total_votes,
          pa_avg_response_time = avg_response_time poll (user_votes_of (p_id poll) s),
          pa_peak_voting_hour = peak_voting_hour (user_votes_of (p_id poll) s),
          pa_created_at = now,
          pa_updated_at = now\<rparr>)"

definition update_poll_analytics :: "int \<Rightarrow> datetime \<Rightarrow> db \<Rightarrow> db" where
  "update_poll_analytics poll_id now s =
     (case get_poll poll_id s of
        None \<Rightarrow> s
      | Some poll \<Rightarrow> s\<lparr>analytics := store_analytics (compute_analytics poll now s) (analytics s)\<rparr>)"

definition get_analytics :: "int \<Rightarrow> db \<Rightarrow> poll_analytics option" where
  "get_analytics poll_id s = find (\<lambda>a. pa_poll_id a = poll_id) (analytics s)"

section \<open>Vote ledger (slack\_handlers.py, process\_vote)\<close>

text \<open>
  \<open>option = query(PollOption).filter(PollOption.id == option_id).first()\<close> followed by
  \<open>if option: option.vote_count += 1\<close>: the first row with that id, of whatever poll.
\<close>

fun increment_vote_count :: "int \<Rightarrow> poll_option list \<Rightarrow> poll_option list" where
  "increment_vote_count option_id [] = []"
| "increment_vote_count option_id (opt # rest) =
     (if o_id opt = option_id
      then opt\<lparr>o_vote_count := o_vote_count opt + 1\<rparr> # rest
      else opt # increment_vote_count option_id rest)"

text \<open>
  \<open>now\<close> is the clock read by the column defaults of the two inserted rows, \<open>now2\<close> the
  one read by the analytics update that follows the commit.  The result is the Boolean
  the function returns and the database after it.
\<close>

definition process_vote :: "int \<Rightarrow> int \<Rightarrow> string \<Rightarrow> datetime \<Rightarrow> datetime \<Rightarrow> db \<Rightarrow> bool \<times> db" where
  "process_vote poll_id option_id user_id now now2 s =
     (case get_poll poll_id s of
        None \<Rightarrow> (False, s)
      | Some poll \<Rightarrow>
          if p_status poll \<noteq> ''active'' then (False, s)
          else
            let existing_vote =
                  find (\<lambda>v. vu_poll_id v = poll_id \<and> vu_user_id v = user_id) (voted_users s)
            in if existing_vote \<noteq> None \<and> p_vote_type poll = ''single'' then (False, s)
               else
                 let s1 = (if existing_vote = None
                           then s\<lparr>voted_users := voted_users s @
                                  [\<lparr>vu_poll_id = poll_id, vu_user_id = user_id, vu_voted_at = now\<rparr>]\<rparr>
                           else s);
                     s2 = s1\<lparr>user_votes := user_votes s1 @
                             [\<lparr>uv_poll_id = poll_id, uv_user_id = user_id,
                               uv_option_id = option_id, uv_voted_at = now\<rparr>]\<rparr>;
                     s3 = s2\<lparr>poll_options := increment_vote_count option_id (poll_options s2)\<rparr>
                 in (True, update_poll_analytics poll_id now2 s3))"

section \<open>Poll state machine (slack\_handlers.py, end\_poll and can\_end\_poll)\<close>

fun set_ended :: "int \<Rightarrow> datetime \<Rightarrow> poll list \<Rightarrow> poll list" where
  "set_ended poll_id now [] = []"
| "set_ended poll_id now (p # rest) =
     (if p_id p = poll_id
      then p\<lparr>p_status := ''ended'', p_ended_at := Some now\<rparr> # rest
      else p # set_ended poll_id now rest)"

definition end_poll :: "int \<Rightarrow> string \<Rightarrow> datetime \<Rightarrow> db \<Rightarrow> bool \<times> db" where
  "end_poll poll_id user_id now s =
     (case get_poll poll_id s of
        None \<Rightarrow> (False, s)
      | Some poll \<Rightarrow>
          if p_creator_id poll \<noteq> user_id then (False, s)
          else (True, s\<lparr>polls := set_ended poll_id now (polls s)\<rparr>))"

definition get_user_role :: "string \<Rightarrow> string \<Rightarrow> db \<Rightarrow> string" where
  "get_user_role user_id team_id s =
     (case find (\<lambda>r. ur_user_id r = user_id \<and> ur_team_id r = team_id \<and> ur_is_active r)
                (user_roles s) of
        Some r \<Rightarrow> ur_role r
      | None \<Rightarrow> ''user'')"

definition permissions :: "string \<Rightarrow> string list" where
  "permissions role =
     (if role = ''admin''
      then [''create_poll'', ''end_any_poll'', ''view_results'', ''vote'',
            ''manage_users'', ''manage_settings'']
      else if role = ''user''
      then [''create_poll'', ''end_own_poll'', ''view_results'', ''vote'']
      else if role = ''viewer''
      then [''view_results'', ''vote'']
      else [])"

definition check_permission :: "string \<Rightarrow> string \<Rightarrow> string \<Rightarrow> db \<Rightarrow> bool" where
  "check_permission user_id team_id action s =
     (action \<in> set (permissions (get_user_role user_id team_id s)))"

definition can_end_poll :: "string \<Rightarrow> string \<Rightarrow> int \<Rightarrow> db \<Rightarrow> bool \<times> string" where
  "can_end_poll user_id team_id poll_id s =
     (case get_poll poll_id s of
        None \<Rightarrow> (False, ''Poll not found.'')
      | Some poll \<Rightarrow>
          if check_permission user_id team_id ''end_any_poll'' s then (True, '''')
          else if check_permission user_id team_id ''end_own_poll'' s \<and> p_creator_id poll = user_id
          then (True, '''')
          else (False, ''You can only end polls you created.''))"

section \<open>Handlers, notifications and fan-out (slack\_handlers.py)\<close>

text \<open>
  What a handler sends out is collected in a list of outputs, in order.  The texts shown
  to the user carry emoji and are named by constructors: \<open>AlreadyVotedMessage\<close> is
  "You have already voted in this poll!", \<open>VoteErrorMessage\<close> is "Sorry, there was an
  error processing your vote. Please try again.", \<open>PermissionMessage reason\<close> is the
  reason of \<open>can_end_poll\<close>, \<open>EndPollFailedMessage\<close> is "Error ending poll. Please try
  again." and \<open>EndPollErrorMessage\<close> is "Sorry, there was an error ending the poll.
  Please try again.".  \<open>Say\<close> is the message reaching the user, through \<open>say\<close> or its
  \<open>safe_say\<close> fallback; \<open>ChatUpdate channel ts\<close> is a delivered \<open>chat_update\<close>;
  \<open>LogError\<close> is a \<open>logger.error\<close> line; \<open>SendNotification\<close> is a call of
  \<open>send_notification\<close> with its recipient, team, kind and poll.
\<close>

datatype message =
    AlreadyVotedMessage
  | VoteErrorMessage
  | PermissionMessage string
  | EndPollFailedMessage
  | EndPollErrorMessage

datatype notification = VoteMilestone int | CloseRace | PollEnded

datatype effect =
    Say message
  | ChatUpdate string string
  | LogError string
  | SendNotification string string notification int

datatype exn = SlackApiError | TypeError | UnboundLocalError

text \<open>Python truthiness of a nullable string column: \<open>None\<close> and \<open>""\<close> are false.\<close>

fun truthy :: "string option \<Rightarrow> bool" where
  "truthy None = False"
| "truthy (Some ts) = (ts \<noteq> [])"

text \<open>
  The Slack client is the parameter \<open>chat_update\<close>: it tells, for a channel and a
  message timestamp, whether \<open>app.client.chat_update\<close> returns (\<open>True\<close>) or raises.
\<close>

definition update_poll_message ::
  "(string \<Rightarrow> string \<Rightarrow> bool) \<Rightarrow> int \<Rightarrow> string \<Rightarrow> string \<Rightarrow> db \<Rightarrow> exn + effect list" where
  "update_poll_message chat_update poll_id channel_id message_ts s =
     (case get_poll poll_id s of
        None \<Rightarrow> Inr []
      | Some poll \<Rightarrow>
          if chat_update channel_id message_ts then Inr [ChatUpdate channel_id message_ts]
          else Inl SlackApiError)"

definition update_share :: "(string \<Rightarrow> string \<Rightarrow> bool) \<Rightarrow> poll_share \<Rightarrow> effect list" where
  "update_share chat_update share =
     (if truthy (ps_message_ts share)
      then (if chat_update (ps_channel_id share) (the (ps_message_ts share))
            then [ChatUpdate (ps_channel_id share) (the (ps_message_ts share))]
            else [LogError (''Failed to update shared message in '' @ ps_channel_id share)])
      else [])"

text \<open>The outputs made, and the exception that left the function, if one did.\<close>

definition update_shared_poll_messages ::
  "(string \<Rightarrow> string \<Rightarrow> bool) \<Rightarrow> int \<Rightarrow> db \<Rightarrow> effect list \<times> exn option" where
  "update_shared_poll_messages chat_update poll_id s =
     (case get_poll poll_id s of
        None \<Rightarrow> ([], None)
      | Some poll \<Rightarrow>
          (case (if truthy (p_message_ts poll)
                 then update_poll_message chat_update poll_id (p_channel_id poll)
                        (the (p_message_ts poll)) s
                 else Inr []) of
             Inl e \<Rightarrow> ([], Some e)
           | Inr out \<Rightarrow>
               (out @ concat (map (update_share chat_update)
                                (filter (\<lambda>sh. ps_poll_id sh = poll_id \<and> ps_is_active sh)
                                   (poll_shares s))),
                None)))"

definition notify_vote_milestone :: "int \<Rightarrow> int \<Rightarrow> db \<Rightarrow> effect list" where
  "notify_vote_milestone poll_id vote_count s =
     (if vote_count mod 5 \<noteq> 0 then []
      else case get_poll poll_id s of
             None \<Rightarrow> []
           | Some poll \<Rightarrow>
               [SendNotification (p_creator_id poll) (p_team_id poll) (VoteMilestone vote_count) poll_id])"

definition notify_close_race :: "int \<Rightarrow> db \<Rightarrow> effect list" where
  "notify_close_race poll_id s =
     (case get_poll poll_id s of
        None \<Rightarrow> []
      | Some poll \<Rightarrow>
          (case rev (sort (map o_vote_count (options_of poll_id s))) of
             first # second # rest \<Rightarrow>
               if first - second \<le> 1 \<and> first > 0
               then [SendNotification (p_creator_id poll) (p_team_id poll) CloseRace poll_id]
               else []
           | _ \<Rightarrow> []))"

definition notify_poll_ended :: "int \<Rightarrow> db \<Rightarrow> effect list" where
  "notify_poll_ended poll_id s =
     (case get_poll poll_id s of
        None \<Rightarrow> []
      | Some poll \<Rightarrow>
          map (\<lambda>voter. SendNotification (vu_user_id voter) (p_team_id poll) PollEnded poll_id)
              (filter (\<lambda>voter. vu_user_id voter \<noteq> p_creator_id poll) (voted_users_of poll_id s))
          @ [SendNotification (p_creator_id poll) (p_team_id poll) PollEnded poll_id])"

text \<open>
  \<open>handle_vote\<close> after the action payload has been parsed into \<open>poll_id\<close>, \<open>option_id\<close>
  and \<open>user_id\<close>.  An exception leaving \<open>update_shared_poll_messages\<close> is caught by the
  handler's outer \<open>except\<close>, which logs it and tells the user.
\<close>

definition handle_vote ::
  "(string \<Rightarrow> string \<Rightarrow> bool) \<Rightarrow> int \<Rightarrow> int \<Rightarrow> string \<Rightarrow> datetime \<Rightarrow> datetime \<Rightarrow> db
     \<Rightarrow> effect list \<times> db" where
  "handle_vote chat_update poll_id option_id user_id now now2 s =
     (case process_vote poll_id option_id user_id now now2 s of
        (True, s') \<Rightarrow>
          (case update_shared_poll_messages chat_update poll_id s' of
             (out, Some e) \<Rightarrow>
               (out @ [LogError ''Error processing vote'', Say VoteErrorMessage], s')
           | (out, None) \<Rightarrow>
               (out @ notify_vote_milestone poll_id (sum_vote_count poll_id s') s'
                    @ notify_close_race poll_id s', s'))
      | (False, s') \<Rightarrow> ([Say AlreadyVotedMessage], s'))"

definition handle_end_poll ::
  "(string \<Rightarrow> string \<Rightarrow> bool) \<Rightarrow> string \<Rightarrow> string \<Rightarrow> int \<Rightarrow> datetime \<Rightarrow> db \<Rightarrow> effect list \<times> db" where
  "handle_end_poll chat_update user_id team_id poll_id now s =
     (case can_end_poll user_id team_id poll_id s of
        (False, reason) \<Rightarrow> ([Say (PermissionMessage reason)], s)
      | (True, reason) \<Rightarrow>
          (case end_poll poll_id user_id now s of
             (True, s') \<Rightarrow>
               (case update_shared_poll_messages chat_update poll_id s' of
                  (out, Some e) \<Rightarrow>
                    (out @ [LogError ''Error ending poll'', Say EndPollErrorMessage], s')
                | (out, None) \<Rightarrow> (out @ notify_poll_ended poll_id s', s'))
           | (False, s') \<Rightarrow> ([Say EndPollFailedMessage], s')))"

section \<open>Option edits (poll\_management.py, PollManager)\<close>







text \<open>
  The option lookup written in \<open>remove_poll_option\<close> and \<open>edit_poll_option\<close>, by id and
  by poll: \<open>filter(PollOption.id == option_id, PollOption.poll_id == poll_id).first()\<close>.
\<close>

definition find_option :: "int \<Rightarrow> int \<Rightarrow> db \<Rightarrow> poll_option option" where
  "find_option poll_id option_id s =
     find (\<lambda>opt. o_id opt = option_id \<and> o_poll_id opt = poll_id) (poll_options s)"

section \<open>The properties in the vocabulary of the model\<close>






text \<open>The counter of the option row that a lookup by id alone finds.\<close>

definition vote_count_of :: "int \<Rightarrow> db \<Rightarrow> int option" where
  "vote_count_of option_id s =
     map_option o_vote_count (find (\<lambda>opt. o_id opt = option_id) (poll_options s))"

text \<open>
  The participation rate in the words of the specification, from the ledger alone: the
  number of distinct voters among the poll's vote records over the number of those
  records, as a percentage capped at 100.
\<close>

definition ledger_participation_rate :: "int \<Rightarrow> db \<Rightarrow> real" where
  "ledger_participation_rate poll_id s =
     min 100 (real (length (remdups (map uv_user_id (user_votes_of poll_id s))))
              / real (length (user_votes_of poll_id s)) * 100)"

text \<open>The vote records of one voter on one poll, and those for one option among them.\<close>

definition votes_by :: "int \<Rightarrow> string \<Rightarrow> db \<Rightarrow> user_vote list" where
  "votes_by poll_id user_id s =
     filter (\<lambda>v. uv_poll_id v = poll_id \<and> uv_user_id v = user_id) (user_votes s)"

definition votes_by_for :: "int \<Rightarrow> string \<Rightarrow> int \<Rightarrow> db \<Rightarrow> user_vote list" where
  "votes_by_for poll_id user_id option_id s =
     filter (\<lambda>v. uv_option_id v = option_id) (votes_by poll_id user_id s)"

definition has_voted :: "int \<Rightarrow> string \<Rightarrow> db \<Rightarrow> bool" where
  "has_voted poll_id user_id s =
     (find (\<lambda>v. vu_poll_id v = poll_id \<and> vu_user_id v = user_id) (voted_users s) \<noteq> None)"

text \<open>
  A run of \<open>process_vote\<close> calls by one voter on one poll, each with its option and its
  two clock readings: the Booleans returned, in order, and the final database.
\<close>

fun process_votes :: "int \<Rightarrow> string \<Rightarrow> (int \<times> datetime \<times> datetime) list \<Rightarrow> db \<Rightarrow> bool list \<times> db" where
  "process_votes poll_id user_id [] s = ([], s)"
| "process_votes poll_id user_id ((option_id, now, now2) # calls) s =
     (case process_vote poll_id option_id user_id now now2 s of
        (ok, s') \<Rightarrow>
          (case process_votes poll_id user_id calls s' of
             (oks, s'') \<Rightarrow> (ok # oks, s'')))"

text \<open>
  The edge-triggered rule in the words of the specification: the new total has reached
  a multiple of 5 that the previous total had not.
\<close>

definition milestone_crossed :: "int \<Rightarrow> int \<Rightarrow> bool" where
  "milestone_crossed previous_total new_total = (previous_total div 5 < new_total div 5)"

definition milestone_fires :: "int \<Rightarrow> int \<Rightarrow> db \<Rightarrow> bool" where
  "milestone_fires poll_id vote_count s = (notify_vote_milestone poll_id vote_count s \<noteq> [])"

text \<open>
  The mean response time in the words of the specification: the arithmetic mean, in
  seconds, of \<open>castAt - createdAt\<close> over the vote records, and 0 on an empty ledger.
\<close>

definition mean_response_seconds :: "poll \<Rightarrow> user_vote list \<Rightarrow> real" where
  "mean_response_seconds poll votes =
     (if votes \<noteq> []
      then sum_list (map (\<lambda>v. total_seconds (uv_voted_at v - p_created_at poll)) votes)
             / real (length votes)
      else 0)"

section \<open>Sample databases\<close>

text \<open>
  The fixtures of \<open>test_agora.py\<close>: a single-choice poll 1 of creator \<open>U123\<close> with options
  1 and 2, posted as message \<open>111\<close> in channel \<open>C123\<close> and shared as message \<open>222\<close> in
  channel \<open>C456\<close>; beside it a multiple-choice poll 2 with options 3 and 4, and an admin
  \<open>U900\<close> of the team.  Nobody has voted.
\<close>

definition sample_db :: db where
  "sample_db =
     \<lparr>polls =
        [\<lparr>p_id = 1, p_question = ''Test question'', p_team_id = ''T123'',
          p_channel_id = ''C123'', p_creator_id = ''U123'', p_vote_type = ''single'',
          p_status = ''active'', p_created_at = 0, p_ended_at = None,
          p_message_ts = Some ''111''\<rparr>,
         \<lparr>p_id = 2, p_question = ''Second question'', p_team_id = ''T123'',
          p_channel_id = ''C123'', p_creator_id = ''U123'', p_vote_type = ''multiple'',
          p_status = ''active'', p_created_at = 0, p_ended_at = None,
          p_message_ts = None\<rparr>],
      poll_options =
        [\<lparr>o_id = 1, o_poll_id = 1, o_text = ''Option 1'', o_vote_count = 0, o_order_index = 0\<rparr>,
         \<lparr>o_id = 2, o_poll_id = 1, o_text = ''Option 2'', o_vote_count = 0, o_order_index = 1\<rparr>,
         \<lparr>o_id = 3, o_poll_id = 2, o_text = ''Option 3'', o_vote_count = 0, o_order_index = 0\<rparr>,
         \<lparr>o_id = 4, o_poll_id = 2, o_text = ''Option 4'', o_vote_count = 0, o_order_index = 1\<rparr>],
      voted_users = [],
      user_votes = [],
      analytics = [],
      user_roles =
        [\<lparr>ur_user_id = ''U900'', ur_team_id = ''T123'', ur_role = ''admin'', ur_is_active = True\<rparr>],
      poll_shares =
        [\<lparr>ps_poll_id = 1, ps_channel_id = ''C456'', ps_message_ts = Some ''222'',
          ps_shared_by = ''U123'', ps_is_active = True\<rparr>]\<rparr>"

text \<open>The same database after five voters have each voted for option 1 of poll 1.\<close>

definition five_votes_db :: db where
  "five_votes_db =
     sample_db
       \<lparr>poll_options :=
          [\<lparr>o_id = 1, o_poll_id = 1, o_text = ''Option 1'', o_vote_count = 5, o_order_index = 0\<rparr>,
           \<lparr>o_id = 2, o_poll_id = 1, o_text = ''Option 2'', o_vote_count = 0, o_order_index = 1\<rparr>,
           \<lparr>o_id = 3, o_poll_id = 2, o_text = ''Option 3'', o_vote_count = 0, o_order_index = 0\<rparr>,
           \<lparr>o_id = 4, o_poll_id = 2, o_text = ''Option 4'', o_vote_count = 0, o_order_index = 1\<rparr>],
        voted_users :=
          map (\<lambda>u. \<lparr>vu_poll_id = 1, vu_user_id = u, vu_voted_at = 10\<rparr>)
              [''U1'', ''U2'', ''U3'', ''U4'', ''U5''],
        user_votes :=
          map (\<lambda>u. \<lparr>uv_poll_id = 1, uv_user_id = u, uv_option_id = 1, uv_voted_at = 10\<rparr>)
              [''U1'', ''U2'', ''U3'', ''U4'', ''U5'']\<rparr>"

text \<open>A Slack client that delivers everywhere, and one that fails in channel \<open>C123\<close> only.\<close>

definition chat_update_ok :: "string \<Rightarrow> string \<Rightarrow> bool" where
  "chat_update_ok channel_id message_ts = True"

definition chat_update_primary_down :: "string \<Rightarrow> string \<Rightarrow> bool" where
  "chat_update_primary_down channel_id message_ts = (channel_id \<noteq> ''C123'')"

text \<open>Voter \<open>U456\<close> has voted for both options of the multiple-choice poll 2.\<close>

definition two_votes_db :: db where
  "two_votes_db =
     snd (process_vote 2 4 ''U456'' 30 31 (snd (process_vote 2 3 ''U456'' 10 11 sample_db)))"

text \<open>Voter \<open>U456\<close> has voted on poll 1 one minute after its creation.\<close>

definition one_minute_db :: db where
  "one_minute_db = snd (process_vote 1 1 ''U456'' 60000000 60000001 sample_db)"

text \<open>The creator has ended poll 1 at time 100.\<close>

definition ended_db :: db where
  "ended_db = snd (end_poll 1 ''U123'' 100 sample_db)"

text \<open>A run of \<open>handle_vote\<close> calls on one poll, and the milestone notifications among effects.\<close>

fun handle_votes ::
  "(string \<Rightarrow> string \<Rightarrow> bool) \<Rightarrow> int \<Rightarrow> (int \<times> string \<times> datetime \<times> datetime) list \<Rightarrow> db
     \<Rightarrow> effect list list \<times> db" where
  "handle_votes chat_update poll_id [] s = ([], s)"
| "handle_votes chat_update poll_id ((option_id, user_id, now, now2) # calls) s =
     (case handle_vote chat_update poll_id option_id user_id now now2 s of
        (out, s') \<Rightarrow>
          (case handle_votes chat_update poll_id calls s' of
             (outs, s'') \<Rightarrow> (out # outs, s'')))"

fun is_milestone :: "effect \<Rightarrow> bool" where
  "is_milestone (SendNotification user_id team_id (VoteMilestone n) poll_id) = True"
| "is_milestone e = False"


text \<open>Four voters have each voted for option 1 of poll 1.\<close>

definition four_votes_db :: db where
  "four_votes_db =
     sample_db
       \<lparr>poll_options :=
          [\<lparr>o_id = 1, o_poll_id = 1, o_text = ''Option 1'', o_vote_count = 4, o_order_index = 0\<rparr>,
           \<lparr>o_id = 2, o_poll_id = 1, o_text = ''Option 2'', o_vote_count = 0, o_order_index = 1\<rparr>,
           \<lparr>o_id = 3, o_poll_id = 2, o_text = ''Option 3'', o_vote_count = 0, o_order_index = 0\<rparr>,
           \<lparr>o_id = 4, o_poll_id = 2, o_text = ''Option 4'', o_vote_count = 0, o_order_index = 1\<rparr>],
        voted_users :=
          map (\<lambda>u. \<lparr>vu_poll_id = 1, vu_user_id = u, vu_voted_at = 10\<rparr>)
              [''U1'', ''U2'', ''U3'', ''U4''],
        user_votes :=
          map (\<lambda>u. \<lparr>uv_poll_id = 1, uv_user_id = u, uv_option_id = 1, uv_voted_at = 10\<rparr>)
              [''U1'', ''U2'', ''U3'', ''U4'']\<rparr>"

text \<open>
  Voter \<open>U456\<close> has voted twice on the multiple-choice poll 2, each time for option 1,
  which is a row of poll 1.
\<close>

definition foreign_votes_db :: db where
  "foreign_votes_db =
     snd (process_vote 2 1 ''U456'' 30 31 (snd (process_vote 2 1 ''U456'' 10 11 sample_db)))"

section \<open>Basic facts about the model\<close>

lemmas eval_simps = sample_db_def get_poll_def process_vote_def
  update_poll_analytics_def compute_analytics_def sum_vote_count_def options_of_def
  voted_users_of_def user_votes_of_def get_analytics_def participation_rate_def
  avg_response_time_def total_seconds_def peak_voting_hour_def hour_of_def Let_def

lemma get_poll_id: "get_poll poll_id s = Some poll \<Longrightarrow> p_id poll = poll_id"
  by (auto simp: get_poll_def dest: find_Some_iff[THEN iffD1])

lemma store_analytics_find:
  "\<exists>a. find (\<lambda>a. pa_poll_id a = pa_poll_id new) (store_analytics new rows) = Some a
       \<and> pa_total_votes a = pa_total_votes new
       \<and> pa_unique_voters a = pa_unique_voters new
       \<and> pa_participation_rate a = pa_participation_rate new
       \<and> pa_avg_response_time a = pa_avg_response_time new
       \<and> pa_peak_voting_hour a = pa_peak_voting_hour new"
  by (induction rows) auto

lemma update_poll_analytics_fields [simp]:
  "polls (update_poll_analytics poll_id now s) = polls s"
  "poll_options (update_poll_analytics poll_id now s) = poll_options s"
  "voted_users (update_poll_analytics poll_id now s) = voted_users s"
  "user_votes (update_poll_analytics poll_id now s) = user_votes s"
  "user_roles (update_poll_analytics poll_id now s) = user_roles s"
  "poll_shares (update_poll_analytics poll_id now s) = poll_shares s"
  by (simp_all add: update_poll_analytics_def split: option.splits)

lemma stored_snapshot:
  assumes "get_poll poll_id s = Some poll"
  shows "\<exists>a. get_analytics poll_id (update_poll_analytics poll_id now s) = Some a
       \<and> pa_total_votes a = sum_vote_count poll_id s
       \<and> pa_unique_voters a = int (length (voted_users_of poll_id s))
       \<and> pa_participation_rate a =
           participation_rate (int (length (voted_users_of poll_id s))) (sum_vote_count poll_id s)
       \<and> pa_avg_response_time a = avg_response_time poll (user_votes_of poll_id s)"
proof -
  have pid: "p_id poll = poll_id" using assms by (rule get_poll_id)
  let ?new = "compute_analytics poll now s"
  have key: "pa_poll_id ?new = poll_id" by (simp add: compute_analytics_def Let_def pid)
  from store_analytics_find[of ?new "analytics s"] key
  show ?thesis using assms
    by (auto simp: get_analytics_def update_poll_analytics_def compute_analytics_def Let_def pid)
qed

section \<open>Analytics: participation rate\<close>

text \<open>
  What \<open>update_poll_analytics\<close> stores: the number of \<open>voted_users\<close> rows of the poll
  over the sum of its option counters, as a percentage capped at 100, when that sum is
  at least one.
\<close>

lemma participation_rate_stored:
  assumes "get_poll poll_id s = Some poll" and "0 < sum_vote_count poll_id s"
  shows "\<exists>a. get_analytics poll_id (update_poll_analytics poll_id now s) = Some a
       \<and> pa_total_votes a = sum_vote_count poll_id s
       \<and> pa_unique_voters a = int (length (voted_users_of poll_id s))
       \<and> pa_participation_rate a =
           min 100 (real_of_int (pa_unique_voters a) / real_of_int (pa_total_votes a) * 100)"
proof -
  from stored_snapshot[OF assms(1), of now] obtain a where
    a: "get_analytics poll_id (update_poll_analytics poll_id now s) = Some a"
       "pa_total_votes a = sum_vote_count poll_id s"
       "pa_unique_voters a = int (length (voted_users_of poll_id s))"
       "pa_participation_rate a =
           participation_rate (int (length (voted_users_of poll_id s))) (sum_vote_count poll_id s)"
    by blast
  have "max 1 (sum_vote_count poll_id s) = sum_vote_count poll_id s" using assms(2) by simp
  with a show ?thesis by (simp add: participation_rate_def)
qed

text \<open>
  Where the poll's counters add up to the number of its vote records and it has one
  \<open>voted_users\<close> row per distinct voter, the stored rate is the rate of the ledger.
\<close>

lemma participation_rate_matches_ledger:
  assumes "get_poll poll_id s = Some poll" and "user_votes_of poll_id s \<noteq> []"
    and "sum_vote_count poll_id s = int (length (user_votes_of poll_id s))"
    and "length (voted_users_of poll_id s) =
         length (remdups (map uv_user_id (user_votes_of poll_id s)))"
  shows "\<exists>a. get_analytics poll_id (update_poll_analytics poll_id now s) = Some a
       \<and> pa_participation_rate a = ledger_participation_rate poll_id s"
proof -
  have pos: "0 < sum_vote_count poll_id s" using assms(2,3) by simp
  from participation_rate_stored[OF assms(1) pos, of now] assms(3,4)
  show ?thesis by (auto simp: ledger_participation_rate_def)
qed

text \<open>
  C9, at the failing input.  Voter \<open>U456\<close> votes twice on the multiple-choice poll 2, each
  time for option 1, a row of poll 1; both votes are accepted.  The ledger of poll 2 then
  holds two records of one voter, a rate of 50, while the counters of poll 2 still add up
  to 0: the snapshot stored by the second vote, and by a further
  \<open>update_poll_analytics\<close>, has total votes 0 and participation rate 100.
\<close>

theorem participation_rate_foreign_option:
  "fst (process_vote 2 1 ''U456'' 10 11 sample_db) = True
   \<and> fst (process_vote 2 1 ''U456'' 30 31 (snd (process_vote 2 1 ''U456'' 10 11 sample_db))) = True
   \<and> length (user_votes_of 2 foreign_votes_db) = 2
   \<and> remdups (map uv_user_id (user_votes_of 2 foreign_votes_db)) = [''U456'']
   \<and> ledger_participation_rate 2 foreign_votes_db = 50
   \<and> sum_vote_count 2 foreign_votes_db = 0
   \<and> map_option pa_total_votes (get_analytics 2 foreign_votes_db) = Some 0
   \<and> map_option pa_participation_rate (get_analytics 2 foreign_votes_db) = Some 100
   \<and> map_option pa_participation_rate
        (get_analytics 2 (update_poll_analytics 2 40 foreign_votes_db)) = Some 100"
  by (simp add: foreign_votes_db_def ledger_participation_rate_def eval_simps)

section \<open>Ending a poll\<close>

text \<open>
  C10.  Only the creator ends a poll: for a caller other than the poll's creator,
  \<open>end_poll\<close> returns \<open>False\<close> and leaves the database, hence the poll's status and
  \<open>ended_at\<close>, as it was; this is so also for an admin whom \<open>can_end_poll\<close> has let
  through by \<open>end_any_poll\<close>, and the handler then answers with its failure message.
\<close>

theorem end_poll_only_creator:
  assumes "get_poll poll_id s = Some poll" and "p_creator_id poll \<noteq> user_id"
  shows "end_poll poll_id user_id now s = (False, s)
       \<and> (check_permission user_id team_id ''end_any_poll'' s \<longrightarrow>
            can_end_poll user_id team_id poll_id s = (True, '''')
          \<and> handle_end_poll chat_update user_id team_id poll_id now s
              = ([Say EndPollFailedMessage], s))"
  using assms by (simp add: end_poll_def can_end_poll_def handle_end_poll_def)

theorem end_poll_only_creator_witness:
  "get_poll 1 sample_db \<noteq> None
   \<and> p_creator_id (the (get_poll 1 sample_db)) \<noteq> ''U900''
   \<and> check_permission ''U900'' ''T123'' ''end_any_poll'' sample_db
   \<and> can_end_poll ''U900'' ''T123'' 1 sample_db = (True, '''')
   \<and> end_poll 1 ''U900'' 200 sample_db = (False, sample_db)
   \<and> handle_end_poll chat_update_ok ''U900'' ''T123'' 1 200 sample_db
        = ([Say EndPollFailedMessage], sample_db)"
proof -
  have h1: "get_poll 1 sample_db = Some (polls sample_db ! 0)"
    by (simp add: eval_simps)
  have h2: "p_creator_id (polls sample_db ! 0) \<noteq> ''U900''"
    by (simp add: eval_simps)
  have h3: "check_permission ''U900'' ''T123'' ''end_any_poll'' sample_db"
    by (simp add: check_permission_def get_user_role_def permissions_def sample_db_def)
  from end_poll_only_creator[OF h1 h2, of 200 "''T123''" chat_update_ok] h1 h2 h3
  show ?thesis by simp
qed

section \<open>The vote ledger\<close>

lemmas handler_simps = handle_vote_def handle_end_poll_def update_shared_poll_messages_def
  update_poll_message_def update_share_def notify_vote_milestone_def notify_close_race_def
  notify_poll_ended_def can_end_poll_def end_poll_def check_permission_def get_user_role_def
  permissions_def

lemma find_append:
  "find P (xs @ ys) = (case find P xs of None \<Rightarrow> find P ys | Some x \<Rightarrow> Some x)"
  by (induction xs) auto

text \<open>A single-choice poll turns away a voter who has a \<open>voted_users\<close> row, changing nothing.\<close>

lemma process_vote_rejects:
  assumes "get_poll poll_id s = Some poll" and "p_vote_type poll = ''single''"
    and "has_voted poll_id user_id s"
  shows "process_vote poll_id option_id user_id now now2 s = (False, s)"
  using assms by (simp add: process_vote_def has_voted_def Let_def)

text \<open>Every other vote on an active poll is accepted, and this is what it writes.\<close>

lemma process_vote_accepts:
  assumes "get_poll poll_id s = Some poll" and "p_status poll = ''active''"
    and "\<not> (has_voted poll_id user_id s \<and> p_vote_type poll = ''single'')"
  shows "fst (process_vote poll_id option_id user_id now now2 s) = True"
    and "user_votes (snd (process_vote poll_id option_id user_id now now2 s)) =
           user_votes s @ [\<lparr>uv_poll_id = poll_id, uv_user_id = user_id,
                            uv_option_id = option_id, uv_voted_at = now\<rparr>]"
    and "poll_options (snd (process_vote poll_id option_id user_id now now2 s)) =
           increment_vote_count option_id (poll_options s)"
    and "voted_users (snd (process_vote poll_id option_id user_id now now2 s)) =
           (if has_voted poll_id user_id s then voted_users s
            else voted_users s @
                   [\<lparr>vu_poll_id = poll_id, vu_user_id = user_id, vu_voted_at = now\<rparr>])"
    and "polls (snd (process_vote poll_id option_id user_id now now2 s)) = polls s"
  using assms by (auto simp: process_vote_def has_voted_def Let_def)

lemma has_voted_after_accept:
  assumes "get_poll poll_id s = Some poll" and "p_status poll = ''active''"
    and "\<not> (has_voted poll_id user_id s \<and> p_vote_type poll = ''single'')"
  shows "has_voted poll_id user_id (snd (process_vote poll_id option_id user_id now now2 s))"
  using process_vote_accepts(4)[OF assms, of option_id now now2]
  by (auto simp: has_voted_def find_append split: option.splits)

subsection \<open>Multiple-choice polls\<close>

lemma vote_count_after_increment:
  "map_option o_vote_count
     (find (\<lambda>opt. o_id opt = option_id) (increment_vote_count option_id opts)) =
   map_option (\<lambda>c. c + 1)
     (map_option o_vote_count (find (\<lambda>opt. o_id opt = option_id) opts))"
  by (induction opts) auto

text \<open>
  C1, as the code has it.  On an active poll of vote type \<open>multiple\<close>, \<open>process_vote\<close>
  accepts every vote, also one by a voter for an option that voter has already voted
  for: it returns \<open>True\<close>, appends one more vote record for that poll, voter and option,
  and adds 1 to the counter of the option row with that id.  The only deduplication is
  that of the \<open>voted_users\<close> row, which is added for the voter's first vote on the poll
  and not again.
\<close>

theorem multiple_choice_no_option_dedup:
  assumes "get_poll poll_id s = Some poll" and "p_status poll = ''active''"
    and "p_vote_type poll = ''multiple''"
  shows "fst (process_vote poll_id option_id user_id now now2 s) = True
       \<and> user_votes (snd (process_vote poll_id option_id user_id now now2 s)) =
           user_votes s @ [\<lparr>uv_poll_id = poll_id, uv_user_id = user_id,
                            uv_option_id = option_id, uv_voted_at = now\<rparr>]
       \<and> length (votes_by_for poll_id user_id option_id
                   (snd (process_vote poll_id option_id user_id now now2 s))) =
           length (votes_by_for poll_id user_id option_id s) + 1
       \<and> vote_count_of option_id (snd (process_vote poll_id option_id user_id now now2 s)) =
           map_option (\<lambda>c. c + 1) (vote_count_of option_id s)
       \<and> poll_options (snd (process_vote poll_id option_id user_id now now2 s)) =
           increment_vote_count option_id (poll_options s)
       \<and> voted_users (snd (process_vote poll_id option_id user_id now now2 s)) =
           (if has_voted poll_id user_id s then voted_users s
            else voted_users s @
                   [\<lparr>vu_poll_id = poll_id, vu_user_id = user_id, vu_voted_at = now\<rparr>])"
proof -
  have ns: "\<not> (has_voted poll_id user_id s \<and> p_vote_type poll = ''single'')"
    using assms(3) by simp
  note acc = process_vote_accepts[OF assms(1,2) ns, of option_id now now2]
  have len: "length (votes_by_for poll_id user_id option_id
                   (snd (process_vote poll_id option_id user_id now now2 s))) =
           length (votes_by_for poll_id user_id option_id s) + 1"
    by (simp add: votes_by_for_def votes_by_def acc(2))
  have cnt: "vote_count_of option_id (snd (process_vote poll_id option_id user_id now now2 s)) =
           map_option (\<lambda>c. c + 1) (vote_count_of option_id s)"
    using vote_count_after_increment[of option_id "poll_options s"]
    by (simp add: vote_count_of_def acc(3))
  from acc len cnt show ?thesis by simp
qed

text \<open>
  The theorem at a third vote of \<open>U456\<close> on poll 2, for option 3 once more: the voter's
  records for option 3 go from 1 to 2, and so does the counter of option 3.
\<close>

theorem multiple_choice_no_option_dedup_witness:
  "get_poll 2 two_votes_db \<noteq> None
   \<and> p_status (the (get_poll 2 two_votes_db)) = ''active''
   \<and> p_vote_type (the (get_poll 2 two_votes_db)) = ''multiple''
   \<and> length (votes_by_for 2 ''U456'' 3 two_votes_db) = 1
   \<and> vote_count_of 3 two_votes_db = Some 1
   \<and> fst (process_vote 2 3 ''U456'' 50 51 two_votes_db) = True
   \<and> length (votes_by_for 2 ''U456'' 3 (snd (process_vote 2 3 ''U456'' 50 51 two_votes_db))) = 2
   \<and> vote_count_of 3 (snd (process_vote 2 3 ''U456'' 50 51 two_votes_db)) = Some 2"
proof -
  have h1: "get_poll 2 two_votes_db = Some (polls sample_db ! 1)"
    by (simp add: two_votes_db_def eval_simps)
  have h2: "p_status (polls sample_db ! 1) = ''active''"
    and h3: "p_vote_type (polls sample_db ! 1) = ''multiple''"
    by (simp_all add: sample_db_def)
  have h4: "length (votes_by_for 2 ''U456'' 3 two_votes_db) = 1"
    by (simp add: two_votes_db_def votes_by_for_def votes_by_def eval_simps)
  have h5: "vote_count_of 3 two_votes_db = Some 1"
    by (simp add: two_votes_db_def vote_count_of_def eval_simps)
  from multiple_choice_no_option_dedup[OF h1 h2 h3, of 3 "''U456''" 50 51] h1 h2 h3 h4 h5
  show ?thesis by simp
qed

text \<open>
  The claim as written fails: on the multiple-choice poll 2, voter \<open>U456\<close> votes for
  option 3 twice; the second call succeeds too, leaves two records for that option and
  the counter of option 3 at 2.
\<close>

theorem multiple_choice_dedup_counterexample:
  "p_vote_type (the (get_poll 2 sample_db)) = ''multiple''
   \<and> p_status (the (get_poll 2 sample_db)) = ''active''
   \<and> fst (process_vote 2 3 ''U456'' 10 11 sample_db) = True
   \<and> fst (process_vote 2 3 ''U456'' 20 21 (snd (process_vote 2 3 ''U456'' 10 11 sample_db))) = True
   \<and> length (votes_by_for 2 ''U456'' 3
        (snd (process_vote 2 3 ''U456'' 20 21 (snd (process_vote 2 3 ''U456'' 10 11 sample_db))))) = 2
   \<and> vote_count_of 3
        (snd (process_vote 2 3 ''U456'' 20 21 (snd (process_vote 2 3 ''U456'' 10 11 sample_db))))
       = Some 2"
  by (simp add: votes_by_for_def votes_by_def vote_count_of_def eval_simps)

subsection \<open>Single-choice polls\<close>

lemma sum_after_increment:
  "find (\<lambda>opt. o_id opt = option_id) opts = Some opt \<Longrightarrow> o_poll_id opt = poll_id \<Longrightarrow>
   sum_list (map o_vote_count
     (filter (\<lambda>opt. o_poll_id opt = poll_id) (increment_vote_count option_id opts)))
   = sum_list (map o_vote_count (filter (\<lambda>opt. o_poll_id opt = poll_id) opts)) + 1"
  by (induction opts) (auto split: if_splits)

lemma process_votes_rejects:
  assumes "get_poll poll_id s = Some poll" and "p_vote_type poll = ''single''"
    and "has_voted poll_id user_id s"
  shows "process_votes poll_id user_id calls s = (replicate (length calls) False, s)"
  using assms
  by (induction calls) (auto simp: process_vote_rejects)

text \<open>
  On an active single-choice poll, let a voter who has not voted on it make any run of
  \<open>process_vote\<close> calls, the first of them for an option that is a row of that poll.  Then the first call returns \<open>True\<close> and every later one \<open>False\<close>,
  the later ones leave the database as the first call left it, the voter has exactly one
  vote record on the poll, and the sum of the poll's option counters has gone up by 1.
\<close>

lemma single_choice_dedup:
  assumes "get_poll poll_id s = Some poll" and "p_status poll = ''active''"
    and "p_vote_type poll = ''single''"
    and "\<not> has_voted poll_id user_id s" and "votes_by poll_id user_id s = []"
    and "find (\<lambda>opt. o_id opt = option_id) (poll_options s) = Some opt"
    and "o_poll_id opt = poll_id"
  shows "process_votes poll_id user_id ((option_id, now, now2) # calls) s =
           (True # replicate (length calls) False,
            snd (process_vote poll_id option_id user_id now now2 s))
       \<and> length (votes_by poll_id user_id
                   (snd (process_votes poll_id user_id ((option_id, now, now2) # calls) s))) = 1
       \<and> sum_vote_count poll_id
           (snd (process_votes poll_id user_id ((option_id, now, now2) # calls) s)) =
           sum_vote_count poll_id s + 1"
proof -
  let ?s1 = "snd (process_vote poll_id option_id user_id now now2 s)"
  have ns: "\<not> (has_voted poll_id user_id s \<and> p_vote_type poll = ''single'')"
    using assms(4) by simp
  note acc = process_vote_accepts[OF assms(1,2) ns, of option_id now now2]
  have poll1: "get_poll poll_id ?s1 = Some poll"
    using assms(1) by (simp add: get_poll_def acc(5))
  have voted1: "has_voted poll_id user_id ?s1"
    by (rule has_voted_after_accept[OF assms(1,2) ns])
  have rest: "process_votes poll_id user_id calls ?s1 = (replicate (length calls) False, ?s1)"
    by (rule process_votes_rejects[OF poll1 assms(3) voted1])
  have run: "process_votes poll_id user_id ((option_id, now, now2) # calls) s =
           (True # replicate (length calls) False, ?s1)"
    using acc(1) rest by (simp add: prod.case_eq_if)
  have one: "length (votes_by poll_id user_id ?s1) = 1"
    using assms(5) by (simp add: votes_by_def acc(2))
  have total: "sum_vote_count poll_id ?s1 = sum_vote_count poll_id s + 1"
    using sum_after_increment[OF assms(6,7)]
    by (simp add: sum_vote_count_def options_of_def acc(3))
  show ?thesis using run one total by simp
qed

text \<open>Three calls of \<open>U456\<close> on poll 1: for option 1, again, then for option 2.\<close>

lemma single_choice_dedup_example:
  "get_poll 1 sample_db \<noteq> None
   \<and> p_status (the (get_poll 1 sample_db)) = ''active''
   \<and> p_vote_type (the (get_poll 1 sample_db)) = ''single''
   \<and> \<not> has_voted 1 ''U456'' sample_db \<and> votes_by 1 ''U456'' sample_db = []
   \<and> map_option o_poll_id (find (\<lambda>opt. o_id opt = 1) (poll_options sample_db)) = Some 1
   \<and> fst (process_votes 1 ''U456'' [(1, 10, 11), (1, 20, 21), (2, 30, 31)] sample_db)
        = [True, False, False]
   \<and> length (votes_by 1 ''U456''
        (snd (process_votes 1 ''U456'' [(1, 10, 11), (1, 20, 21), (2, 30, 31)] sample_db))) = 1
   \<and> sum_vote_count 1
        (snd (process_votes 1 ''U456'' [(1, 10, 11), (1, 20, 21), (2, 30, 31)] sample_db)) = 1"
proof -
  have h1: "get_poll 1 sample_db = Some (polls sample_db ! 0)"
    by (simp add: eval_simps)
  have h2: "p_status (polls sample_db ! 0) = ''active''"
    and h3: "p_vote_type (polls sample_db ! 0) = ''single''"
    by (simp_all add: sample_db_def)
  have h4: "\<not> has_voted 1 ''U456'' sample_db" and h5: "votes_by 1 ''U456'' sample_db = []"
    by (simp_all add: has_voted_def votes_by_def sample_db_def)
  have h6: "find (\<lambda>opt. o_id opt = 1) (poll_options sample_db) = Some (poll_options sample_db ! 0)"
    and h7: "o_poll_id (poll_options sample_db ! 0) = 1"
    by (simp_all add: sample_db_def)
  have h8: "sum_vote_count 1 sample_db = 0"
    by (simp add: eval_simps)
  note t = single_choice_dedup[OF h1 h2 h3 h4 h5 h6 h7, of 10 11 "[(1, 20, 21), (2, 30, 31)]"]
  have c1: "fst (process_votes 1 ''U456'' [(1, 10, 11), (1, 20, 21), (2, 30, 31)] sample_db)
        = [True, False, False]"
    using t[THEN conjunct1] by (simp del: process_votes.simps)
  have c2: "length (votes_by 1 ''U456''
        (snd (process_votes 1 ''U456'' [(1, 10, 11), (1, 20, 21), (2, 30, 31)] sample_db))) = 1"
    using t[THEN conjunct2, THEN conjunct1] .
  have c3: "sum_vote_count 1
        (snd (process_votes 1 ''U456'' [(1, 10, 11), (1, 20, 21), (2, 30, 31)] sample_db)) = 1"
    using t[THEN conjunct2, THEN conjunct2] h8 by (simp del: process_votes.simps)
  show ?thesis using c1 c2 c3 h1 h2 h3 h4 h5 h6 h7 by (simp del: process_votes.simps)
qed

text \<open>
  C4, at the failing input.  The first vote of \<open>U456\<close> on the active single-choice
  poll 1 names option 3, a row of poll 2.  The call succeeds and the voter has one vote
  record on poll 1, but the sum of the counters of poll 1 stays 0 instead of going up
  by 1; the counter that went up is one of poll 2.
\<close>

theorem single_choice_foreign_option_total:
  "p_status (the (get_poll 1 sample_db)) = ''active''
   \<and> p_vote_type (the (get_poll 1 sample_db)) = ''single''
   \<and> \<not> has_voted 1 ''U456'' sample_db
   \<and> fst (process_votes 1 ''U456'' [(3, 10, 11)] sample_db) = [True]
   \<and> length (votes_by 1 ''U456'' (snd (process_votes 1 ''U456'' [(3, 10, 11)] sample_db))) = 1
   \<and> sum_vote_count 1 sample_db = 0
   \<and> sum_vote_count 1 (snd (process_votes 1 ''U456'' [(3, 10, 11)] sample_db)) = 0
   \<and> sum_vote_count 2 sample_db = 0
   \<and> sum_vote_count 2 (snd (process_votes 1 ''U456'' [(3, 10, 11)] sample_db)) = 1"
  by (simp add: has_voted_def votes_by_def eval_simps)

subsection \<open>The option of a vote is not checked\<close>

text \<open>
  C5, at the failing input.  Poll 1 has no option 3 (it is a row of poll 2) and the
  database has no option 99.  \<open>process_vote\<close> on poll 1 accepts a vote for either:
  it returns \<open>True\<close> and inserts the vote record; for option 3 it also increments the
  counter of that option of poll 2.
\<close>

theorem process_vote_foreign_option:
  "find_option 1 3 sample_db = None
   \<and> process_vote 1 3 ''U456'' 10 11 sample_db \<noteq> (False, sample_db)
   \<and> fst (process_vote 1 3 ''U456'' 10 11 sample_db) = True
   \<and> user_votes (snd (process_vote 1 3 ''U456'' 10 11 sample_db)) =
       [\<lparr>uv_poll_id = 1, uv_user_id = ''U456'', uv_option_id = 3, uv_voted_at = 10\<rparr>]
   \<and> sum_vote_count 2 sample_db = 0
   \<and> sum_vote_count 2 (snd (process_vote 1 3 ''U456'' 10 11 sample_db)) = 1
   \<and> find (\<lambda>opt. o_id opt = 99) (poll_options sample_db) = None
   \<and> fst (process_vote 1 99 ''U456'' 10 11 sample_db) = True
   \<and> user_votes (snd (process_vote 1 99 ''U456'' 10 11 sample_db)) =
       [\<lparr>uv_poll_id = 1, uv_user_id = ''U456'', uv_option_id = 99, uv_voted_at = 10\<rparr>]"
  by (simp add: find_option_def eval_simps)

section \<open>Handlers\<close>

subsection \<open>Ending a poll twice\<close>

text \<open>
  C2, at the failing input.  The creator ends poll 1 at time 100 and then again at time
  200.  The second \<open>end_poll\<close> returns \<open>True\<close> as the first did and overwrites
  \<open>ended_at\<close> with 200, and \<open>handle_end_poll\<close> on the ended poll pushes the messages and
  sends the poll-ended notification once more.
\<close>

theorem end_poll_twice:
  "fst (end_poll 1 ''U123'' 100 sample_db) = True
   \<and> map_option p_status (get_poll 1 ended_db) = Some ''ended''
   \<and> map_option p_ended_at (get_poll 1 ended_db) = Some (Some 100)
   \<and> fst (end_poll 1 ''U123'' 200 ended_db) = True
   \<and> map_option p_ended_at (get_poll 1 (snd (end_poll 1 ''U123'' 200 ended_db))) = Some (Some 200)
   \<and> fst (handle_end_poll chat_update_ok ''U123'' ''T123'' 1 200 ended_db) =
       [ChatUpdate ''C123'' ''111'', ChatUpdate ''C456'' ''222'',
        SendNotification ''U123'' ''T123'' PollEnded 1]"
  by (simp add: ended_db_def chat_update_ok_def handler_simps eval_simps)

subsection \<open>Fan-out\<close>

text \<open>The handler's database is that of \<open>process_vote\<close>, whatever the Slack client does.\<close>

lemma handle_vote_db:
  "snd (handle_vote chat_update poll_id option_id user_id now now2 s) =
   snd (process_vote poll_id option_id user_id now now2 s)"
  by (auto simp: handle_vote_def split: prod.splits bool.splits option.splits)

text \<open>
  When the primary message is absent or its push succeeds, no exception leaves the
  fan-out, and every active share whose own push succeeds is pushed, whichever other
  shares fail.
\<close>

lemma share_failures_do_not_stop_fanout:
  assumes "get_poll poll_id s = Some poll"
    and "\<not> truthy (p_message_ts poll) \<or> chat_update (p_channel_id poll) (the (p_message_ts poll))"
    and "share \<in> set (poll_shares s)" and "ps_poll_id share = poll_id" and "ps_is_active share"
    and "truthy (ps_message_ts share)"
    and "chat_update (ps_channel_id share) (the (ps_message_ts share))"
  shows "snd (update_shared_poll_messages chat_update poll_id s) = None"
    and "ChatUpdate (ps_channel_id share) (the (ps_message_ts share))
           \<in> set (fst (update_shared_poll_messages chat_update poll_id s))"
  using assms
  by (auto simp: update_shared_poll_messages_def update_poll_message_def update_share_def
      intro!: bexI[of _ share])

text \<open>
  C8, at the failing input.  Voter \<open>U456\<close> votes on poll 1 while the Slack client fails
  for the primary message in channel \<open>C123\<close> and would deliver to the share in \<open>C456\<close>.
  The vote is committed, but the exception of the primary push leaves
  \<open>update_shared_poll_messages\<close> before any share is pushed, and the handler tells the
  voter that there was an error processing the vote.
\<close>

theorem primary_push_failure:
  "fst (process_vote 1 1 ''U456'' 10 11 sample_db) = True
   \<and> chat_update_primary_down ''C456'' ''222''
   \<and> update_shared_poll_messages chat_update_primary_down 1
        (snd (process_vote 1 1 ''U456'' 10 11 sample_db)) = ([], Some SlackApiError)
   \<and> fst (handle_vote chat_update_primary_down 1 1 ''U456'' 10 11 sample_db) =
       [LogError ''Error processing vote'', Say VoteErrorMessage]
   \<and> user_votes (snd (handle_vote chat_update_primary_down 1 1 ''U456'' 10 11 sample_db)) =
       [\<lparr>uv_poll_id = 1, uv_user_id = ''U456'', uv_option_id = 1, uv_voted_at = 10\<rparr>]
   \<and> sum_vote_count 1 (snd (handle_vote chat_update_primary_down 1 1 ''U456'' 10 11 sample_db)) = 1"
  by (simp add: chat_update_primary_down_def handler_simps eval_simps)

subsection \<open>Vote milestones\<close>

text \<open>
  \<open>notify_vote_milestone\<close> notifies exactly when the total it is given is a multiple
  of 5, and keeps no memory of earlier notifications.  When the total has gone up by
  one, this is the same as the total having crossed a multiple of 5 that the previous
  total had not reached.
\<close>

lemma milestone_fires_iff:
  assumes "get_poll poll_id s = Some poll"
  shows "(milestone_fires poll_id vote_count s \<longleftrightarrow> vote_count mod 5 = 0)
       \<and> (vote_count = previous + 1 \<longrightarrow>
            (milestone_fires poll_id vote_count s \<longleftrightarrow> milestone_crossed previous vote_count))"
proof -
  have a: "milestone_fires poll_id vote_count s \<longleftrightarrow> vote_count mod 5 = 0"
    using assms by (simp add: milestone_fires_def notify_vote_milestone_def)
  have b: "vote_count = previous + 1 \<Longrightarrow>
      (vote_count mod 5 = 0 \<longleftrightarrow> previous div 5 < vote_count div 5)"
    by presburger
  show ?thesis using a b by (auto simp: milestone_crossed_def)
qed

lemma no_milestone_in_fanout:
  "filter is_milestone (fst (update_shared_poll_messages chat_update poll_id s)) = []"
  by (auto simp: update_shared_poll_messages_def update_poll_message_def update_share_def
      filter_empty_conv split: option.splits sum.splits if_splits)

lemma no_milestone_in_close_race:
  "filter is_milestone (notify_close_race poll_id s) = []"
  by (auto simp: notify_close_race_def split: option.splits list.splits)

text \<open>
  In the handler: when the vote is accepted for an option that is a row of the poll and
  no exception leaves the fan-out, the milestone notification is sent exactly when the
  poll's total has crossed a multiple of 5.
\<close>

lemma handle_vote_milestone_iff_crossed:
  assumes "get_poll poll_id s = Some poll" and "p_status poll = ''active''"
    and "\<not> (has_voted poll_id user_id s \<and> p_vote_type poll = ''single'')"
    and "find (\<lambda>opt. o_id opt = option_id) (poll_options s) = Some opt"
    and "o_poll_id opt = poll_id"
    and "snd (update_shared_poll_messages chat_update poll_id
               (snd (process_vote poll_id option_id user_id now now2 s))) = None"
  shows "(filter is_milestone
            (fst (handle_vote chat_update poll_id option_id user_id now now2 s)) \<noteq> []) =
         milestone_crossed (sum_vote_count poll_id s)
           (sum_vote_count poll_id (snd (handle_vote chat_update poll_id option_id user_id now now2 s)))"
proof -
  define s' where "s' = snd (process_vote poll_id option_id user_id now now2 s)"
  define out where "out = fst (update_shared_poll_messages chat_update poll_id s')"
  note acc = process_vote_accepts[OF assms(1,2,3), of option_id now now2]
  have pv: "process_vote poll_id option_id user_id now now2 s = (True, s')"
    unfolding s'_def using acc(1)
    by (cases "process_vote poll_id option_id user_id now now2 s") simp
  have fan: "update_shared_poll_messages chat_update poll_id s' = (out, None)"
    unfolding out_def using assms(6)[folded s'_def]
    by (cases "update_shared_poll_messages chat_update poll_id s'") simp
  have quiet: "filter is_milestone out = []"
    by (simp add: out_def no_milestone_in_fanout)
  have poll': "get_poll poll_id s' = Some poll"
    using assms(1) by (simp add: s'_def get_poll_def acc(5))
  have total: "sum_vote_count poll_id s' = sum_vote_count poll_id s + 1"
    using sum_after_increment[OF assms(4,5)]
    by (simp add: s'_def sum_vote_count_def options_of_def acc(3))
  have hv: "handle_vote chat_update poll_id option_id user_id now now2 s =
        (out @ notify_vote_milestone poll_id (sum_vote_count poll_id s') s'
             @ notify_close_race poll_id s', s')"
    by (simp add: handle_vote_def pv fan)
  have sent: "(filter is_milestone
            (fst (handle_vote chat_update poll_id option_id user_id now now2 s)) \<noteq> []) =
        ((sum_vote_count poll_id s + 1) mod 5 = 0)"
    by (simp add: hv quiet no_milestone_in_close_race notify_vote_milestone_def poll' total)
  have "((sum_vote_count poll_id s + 1) mod 5 = 0) =
        (sum_vote_count poll_id s div 5 < (sum_vote_count poll_id s + 1) div 5)"
    by presburger
  with sent show ?thesis by (simp add: hv total milestone_crossed_def)
qed

text \<open>
  Five distinct voters vote in sequence on the fresh poll 1, each for one of its options:
  the milestone notification is sent once, by the fifth call.
\<close>

lemma five_voters_scenario:
  "map (filter is_milestone)
     (fst (handle_votes chat_update_ok 1
        [(1, ''U1'', 10, 11), (1, ''U2'', 20, 21), (2, ''U3'', 30, 31), (1, ''U4'', 40, 41),
         (2, ''U5'', 50, 51)] sample_db)) =
   [[], [], [], [], [SendNotification ''U123'' ''T123'' (VoteMilestone 5) 1]]"
  by (simp add: chat_update_ok_def handler_simps eval_simps)

text \<open>
  C6, at the failing inputs.  First: poll 1 stands at 5 votes when a sixth voter's vote,
  for option 3, a row of poll 2, is accepted.  The total is 5 before and after, no multiple
  of 5 has been crossed, and the handler sends the milestone notification for 5 again.
  Second: poll 1 stands at 4 votes and a fifth voter votes for option 1 while the push of
  the primary message fails.  The total goes from 4 to 5, crossing 5, and the handler
  sends no milestone notification.
\<close>

theorem milestone_not_edge_triggered:
  "sum_vote_count 1 five_votes_db = 5
   \<and> fst (process_vote 1 3 ''U6'' 10 11 five_votes_db) = True
   \<and> sum_vote_count 1 (snd (process_vote 1 3 ''U6'' 10 11 five_votes_db)) = 5
   \<and> \<not> milestone_crossed 5 5
   \<and> milestone_fires 1 5 (snd (process_vote 1 3 ''U6'' 10 11 five_votes_db))
   \<and> filter is_milestone (fst (handle_vote chat_update_ok 1 3 ''U6'' 10 11 five_votes_db)) =
       [SendNotification ''U123'' ''T123'' (VoteMilestone 5) 1]
   \<and> sum_vote_count 1 four_votes_db = 4
   \<and> fst (process_vote 1 1 ''U5'' 50 51 four_votes_db) = True
   \<and> sum_vote_count 1 (snd (handle_vote chat_update_primary_down 1 1 ''U5'' 50 51 four_votes_db)) = 5
   \<and> milestone_crossed 4 5
   \<and> filter is_milestone
        (fst (handle_vote chat_update_primary_down 1 1 ''U5'' 50 51 four_votes_db)) = []"
  by (simp add: milestone_crossed_def milestone_fires_def five_votes_db_def four_votes_db_def
      chat_update_ok_def chat_update_primary_down_def handler_simps eval_simps)

section \<open>Analytics: average response time\<close>

lemma sum_list_divide:
  "sum_list (map (\<lambda>v. f v / (c::real)) xs) = sum_list (map f xs) / c"
  by (induction xs) (simp_all add: add_divide_distrib)

text \<open>
  C7, as the code has it.  The average response time that \<open>update_poll_analytics\<close>
  stores is the arithmetic mean of \<open>voted_at - created_at\<close> over the poll's vote records
  expressed in minutes, that is the mean in seconds divided by 60, and 0 when the poll
  has no vote record.
\<close>

theorem avg_response_time_in_minutes:
  assumes "get_poll poll_id s = Some poll"
  shows "\<exists>a. get_analytics poll_id (update_poll_analytics poll_id now s) = Some a
       \<and> pa_avg_response_time a = mean_response_seconds poll (user_votes_of poll_id s) / 60
       \<and> (user_votes_of poll_id s = [] \<longrightarrow> pa_avg_response_time a = 0)"
proof -
  from stored_snapshot[OF assms, of now] obtain a where
    a: "get_analytics poll_id (update_poll_analytics poll_id now s) = Some a"
       "pa_avg_response_time a = avg_response_time poll (user_votes_of poll_id s)"
    by blast
  have "avg_response_time poll votes = mean_response_seconds poll votes / 60" for votes
    by (simp add: avg_response_time_def mean_response_seconds_def sum_list_divide)
  moreover have "avg_response_time poll [] = 0"
    by (simp add: avg_response_time_def)
  ultimately show ?thesis using a by auto
qed

theorem avg_response_time_in_minutes_witness:
  "get_poll 1 one_minute_db \<noteq> None
   \<and> mean_response_seconds (the (get_poll 1 one_minute_db)) (user_votes_of 1 one_minute_db) = 60
   \<and> (\<exists>a. get_analytics 1 (update_poll_analytics 1 70000000 one_minute_db) = Some a
          \<and> pa_avg_response_time a = 1)
   \<and> get_poll 1 sample_db \<noteq> None \<and> user_votes_of 1 sample_db = []
   \<and> (\<exists>a. get_analytics 1 (update_poll_analytics 1 5 sample_db) = Some a
          \<and> pa_avg_response_time a = 0)"
proof -
  have e1: "get_poll 1 sample_db = Some (polls sample_db ! 0)"
    and e2: "user_votes_of 1 sample_db = []"
    by (simp_all add: eval_simps)
  have h1: "get_poll 1 one_minute_db = Some (polls sample_db ! 0)"
    by (simp add: one_minute_db_def eval_simps)
  have h2: "mean_response_seconds (polls sample_db ! 0) (user_votes_of 1 one_minute_db) = 60"
    by (simp add: one_minute_db_def mean_response_seconds_def eval_simps)
  from avg_response_time_in_minutes[OF h1, of 70000000] h2
  have w1: "\<exists>a. get_analytics 1 (update_poll_analytics 1 70000000 one_minute_db) = Some a
          \<and> pa_avg_response_time a = 1"
    by auto
  from avg_response_time_in_minutes[OF e1, of 5] e2
  have w2: "\<exists>a. get_analytics 1 (update_poll_analytics 1 5 sample_db) = Some a
          \<and> pa_avg_response_time a = 0"
    by auto
  show ?thesis using h1 h2 e1 e2 w1 w2 by simp
qed

text \<open>
  The claim as written fails: the only vote on poll 1 was cast 60 seconds after the poll
  was created; the mean in seconds is 60 and the stored average is 1.
\<close>

theorem avg_response_time_seconds_counterexample:
  "map_option pa_avg_response_time (get_analytics 1 one_minute_db) = Some 1
   \<and> mean_response_seconds (the (get_poll 1 one_minute_db)) (user_votes_of 1 one_minute_db) = 60"
  by (simp add: one_minute_db_def mean_response_seconds_def eval_simps)

section \<open>Counter consistency\<close>



lemma increment_vote_count_ids [simp]:
  "map o_id (increment_vote_count option_id opts) = map o_id opts"
  by (induction opts) auto







end
